theory Spec2Isabelle
  imports Complex_Main
begin

section \<open>The SprintIR-R20 driver: data model\<close>

text \<open>
  The driver talks to a CO2 sensor over a serial line.  The Python class
  \<^verbatim>\<open>sprintIRR20\<close> keeps the serial port and a handful of cached calibration values; every
  method writes one ASCII command line and polls the port for the reply.

  Conventions of the embedding:
  \<^item> Python integers are \<^typ>\<open>int\<close>; \<^verbatim>\<open>None\<close> is the \<open>None\<close> of an option type.
  \<^item> Python \<^verbatim>\<open>bytes\<close> and \<^verbatim>\<open>str\<close> are both \<^typ>\<open>string\<close>; \<^verbatim>\<open>.decode()\<close> is the identity
    (the protocol is ASCII).
  \<^item> Python floats are computed with exact rational arithmetic (\<^typ>\<open>rat\<close>); the rounding of
    IEEE doubles is not modelled.  \<^verbatim>\<open>int(x)\<close> of a float truncates toward zero.
  \<^item> An exception is a value \<open>Inl e\<close>; a call that never returns is \<open>None\<close>.
  \<^item> \<^verbatim>\<open>print\<close> and \<^verbatim>\<open>time.sleep\<close> are omitted.
\<close>

datatype error =
    SprintIRR20_timeout
  | SprintIRR20_unexpected_reply
  | SprintIRR20_connection_lost
  | TypeError
  | ValueError
  | ZeroDivisionError
  | UnboundLocalError

text \<open>A Python number as it reaches \<^verbatim>\<open>UART_recv\<close>: only its type and value matter there.\<close>

datatype pynum = PInt int | PFloat rat

text \<open>
  The serial port.  \<open>rx k\<close> is what the \<open>k\<close>-th call of \<^verbatim>\<open>uart.readline()\<close> returns
  (\<open>None\<close> when no line has arrived within the per-call wait), \<open>reads\<close> counts the calls
  made so far, and \<open>tx\<close> lists the command lines written, oldest first.
\<close>

record transport =
  rx :: "nat \<Rightarrow> string option"
  reads :: nat
  tx :: "string list"

record session =
  uart :: transport
  verbose :: bool
  verbose_measuring :: bool
  timeout :: pynum
  scalingFactor :: int
  compensationValue :: int
  pressure :: int
  digitalFilter :: int

text \<open>
  The built-in conversions applied to reply fields, taken as parameters:
  \<open>int_of_text\<close> is \<^verbatim>\<open>int(field)\<close> and \<open>int_of_float_text\<close> is \<^verbatim>\<open>int(float(field))\<close>;
  \<open>Inl\<close> is the exception the conversion raises on a malformed field.
\<close>

record builtins =
  int_of_text :: "string \<Rightarrow> error + int"
  int_of_float_text :: "string \<Rightarrow> error + int"

type_synonym 'a outcome = "((error + 'a) \<times> session) option"

definition CRLF :: string where
  "CRLF = [CHR 0x0D, CHR 0x0A]"

definition returns :: "'a \<Rightarrow> session \<Rightarrow> 'a outcome" where
  "returns a s = Some (Inr a, s)"

definition raises :: "error \<Rightarrow> session \<Rightarrow> 'a outcome" where
  "raises e s = Some (Inl e, s)"

definition and_then :: "'a outcome \<Rightarrow> ('a \<Rightarrow> session \<Rightarrow> 'b outcome) \<Rightarrow> 'b outcome" where
  "and_then m f =
     (case m of
        None \<Rightarrow> None
      | Some (Inl e, s) \<Rightarrow> Some (Inl e, s)
      | Some (Inr a, s) \<Rightarrow> f a s)"

definition int_trunc :: "rat \<Rightarrow> int" where
  "int_trunc x = (if x < 0 then \<lceil>x\<rceil> else \<lfloor>x\<rfloor>)"

section \<open>arguments\_values\_helpers.py\<close>

definition digit_of :: "nat \<Rightarrow> char" where
  "digit_of d = ''0123456789'' ! d"

function str_nat :: "nat \<Rightarrow> string" where
  "str_nat n = (if n < 10 then [digit_of n] else str_nat (n div 10) @ [digit_of (n mod 10)])"
  by pat_completeness auto
termination
  by (relation "measure id") auto

text \<open>\<^verbatim>\<open>str(v)\<close> of a Python integer.\<close>

definition str :: "int \<Rightarrow> string" where
  "str v = (if v < 0 then CHR ''-'' # str_nat (nat (- v)) else str_nat (nat v))"

text \<open>The \<^verbatim>\<open>while(n>0)\<close> loop of \<^verbatim>\<open>numberOfDigits\<close>.\<close>

function count_digits :: "int \<Rightarrow> int \<Rightarrow> int" where
  "count_digits n count = (if n > 0 then count_digits (n div 10) (count + 1) else count)"
  by pat_completeness auto
termination
  by (relation "measure (\<lambda>(n, count). nat n)") auto

definition numberOfDigits :: "int option \<Rightarrow> int" where
  "numberOfDigits n =
     (case n of
        Some k \<Rightarrow> (if k = 0 then 1 else count_digits k 0)
      | None \<Rightarrow> - 1)"

definition positive :: "int \<Rightarrow> bool" where
  "positive n = (if n > 0 then True else False)"

definition formatArgument5digits :: "int \<Rightarrow> string" where
  "formatArgument5digits v =
     (let digits = numberOfDigits (Some v) in
      if digits = 1 then ''0000'' @ str v
      else if digits = 2 then ''000'' @ str v
      else if digits = 3 then ''00'' @ str v
      else if digits = 4 then ''0'' @ str v
      else str v)"

text \<open>Reading a decimal token back: digits only, at least one.\<close>

definition digit_val :: "char \<Rightarrow> nat option" where
  "digit_val c = map_of (zip ''0123456789'' [0, 1, 2, 3, 4, 5, 6, 7, 8, 9]) c"

fun dec_acc :: "nat \<Rightarrow> string \<Rightarrow> nat option" where
  "dec_acc a [] = Some a"
| "dec_acc a (c # cs) =
     (case digit_val c of None \<Rightarrow> None | Some d \<Rightarrow> dec_acc (10 * a + d) cs)"

definition dec_int :: "string \<Rightarrow> int option" where
  "dec_int s = (if s = [] then None else map_option int (dec_acc 0 s))"

text \<open>
  An instance of the built-in conversions that accepts plain decimal fields with an
  optional minus sign, on which \<^verbatim>\<open>int(field)\<close> and \<^verbatim>\<open>int(float(field))\<close> agree.
\<close>

definition dec_field :: "string \<Rightarrow> error + int" where
  "dec_field s =
     (case s of
        [] \<Rightarrow> Inl ValueError
      | c # ds \<Rightarrow>
          if c = CHR ''-'' then
            (case dec_int ds of None \<Rightarrow> Inl ValueError | Some v \<Rightarrow> Inr (- v))
          else
            (case dec_int s of None \<Rightarrow> Inl ValueError | Some v \<Rightarrow> Inr v))"

definition dec_builtins :: builtins where
  "dec_builtins = \<lparr>int_of_text = dec_field, int_of_float_text = dec_field\<rparr>"

section \<open>The protocol engine\<close>

definition uart_write :: "string \<Rightarrow> session \<Rightarrow> session" where
  "uart_write command s = s\<lparr>uart := (uart s)\<lparr>tx := tx (uart s) @ [command]\<rparr>\<rparr>"

definition uart_readline :: "transport \<Rightarrow> string option \<times> transport" where
  "uart_readline u = (rx u (reads u), u\<lparr>reads := Suc (reads u)\<rparr>)"

text \<open>
  The loop \<^verbatim>\<open>for counter in range(timeout_iters)\<close>: one \<^verbatim>\<open>readline\<close> per attempt,
  leaving at the first reply that is not \<^verbatim>\<open>None\<close>.  The result is the last value of
  \<^verbatim>\<open>response\<close>.
\<close>

fun poll :: "nat \<Rightarrow> transport \<Rightarrow> string option \<times> transport" where
  "poll 0 u = (None, u)"
| "poll (Suc n) u =
     (case uart_readline u of
        (None, u') \<Rightarrow> poll n u'
      | (Some response, u') \<Rightarrow> (Some response, u'))"

text \<open>The loop \<^verbatim>\<open>while True\<close> of the branch without timeout.\<close>

partial_function (option) recv_forever :: "transport \<Rightarrow> (string \<times> transport) option" where
  "recv_forever u =
     (case uart_readline u of
        (None, u') \<Rightarrow> recv_forever u'
      | (Some response, u') \<Rightarrow> Some (response, u'))"

text \<open>
  \<^verbatim>\<open>UART_recv(timeout)\<close>.  \<^verbatim>\<open>range\<close> refuses a float (\<^verbatim>\<open>TypeError\<close>); with a negative
  timeout the loop body never runs and \<^verbatim>\<open>response\<close> is read unbound.
\<close>

definition UART_recv ::
  "pynum \<Rightarrow> transport \<Rightarrow> ((error + string) \<times> transport) option" where
  "UART_recv t u =
     (if t \<noteq> PInt 0 \<and> t \<noteq> PFloat 0 then
        (case t of
           PFloat f \<Rightarrow> Some (Inl TypeError, u)
         | PInt n \<Rightarrow>
             (let timeout_iters = 16 * n in
              if timeout_iters \<le> 0 then Some (Inl UnboundLocalError, u)
              else
                (case poll (nat timeout_iters) u of
                   (None, u') \<Rightarrow> Some (Inl SprintIRR20_timeout, u')
                 | (Some response, u') \<Rightarrow> Some (Inr response, u'))))
      else
        (case recv_forever u of
           None \<Rightarrow> None
         | Some (response, u') \<Rightarrow> Some (Inr response, u')))"

text \<open>\<^verbatim>\<open>self.UART_recv(timeout=self.timeout)\<close> on the session's port.\<close>

definition recv :: "session \<Rightarrow> string outcome" where
  "recv s =
     (case UART_recv (timeout s) (uart s) of
        None \<Rightarrow> None
      | Some (r, u') \<Rightarrow> Some (r, s\<lparr>uart := u'\<rparr>))"

text \<open>A port that yields the given lines on successive read attempts and then stays silent.\<close>

definition replies :: "string list \<Rightarrow> nat \<Rightarrow> string option" where
  "replies ls k = (if k < length ls then Some (ls ! k) else None)"

definition port :: "string list \<Rightarrow> transport" where
  "port ls = \<lparr>rx = replies ls, reads = 0, tx = []\<rparr>"

section \<open>Measurements\<close>

text \<open>
  \<^verbatim>\<open>getMostRecentFilteredCO2Measurement\<close> and its unfiltered twin.  The test
  \<^verbatim>\<open>result is None\<close> never holds of a value \<^verbatim>\<open>UART_recv\<close> returned, so its branch is absent.
\<close>

definition getMostRecentFilteredCO2Measurement :: "builtins \<Rightarrow> session \<Rightarrow> int outcome" where
  "getMostRecentFilteredCO2Measurement py s =
     and_then (recv (uart_write (''Z'' @ CRLF) s)) (\<lambda>result s'.
       (case int_of_float_text py (take 5 (drop 3 result)) of
          Inl e \<Rightarrow> raises e s'
        | Inr v \<Rightarrow> returns v s'))"

definition getMostRecentUnfilteredCO2Measurement :: "builtins \<Rightarrow> session \<Rightarrow> int outcome" where
  "getMostRecentUnfilteredCO2Measurement py s =
     and_then (recv (uart_write (''z'' @ CRLF) s)) (\<lambda>result s'.
       (case int_of_float_text py (take 5 (drop 3 result)) of
          Inl e \<Rightarrow> raises e s'
        | Inr v \<Rightarrow> returns v s'))"

text \<open>
  \<^verbatim>\<open>"{:.2f}".format(x)\<close> read back as a number: \<open>x\<close> rounded to two decimals.  The exact
  quotient is rounded, a tie going to the even neighbour; at a tie Python follows the
  representation error of the double instead, which this theory does not model.
\<close>

definition round_half_even :: "rat \<Rightarrow> int" where
  "round_half_even x =
     (let f = \<lfloor>x\<rfloor>; r = x - of_int f in
      if r < 1 / 2 then f else if 1 / 2 < r then f + 1 else if even f then f else f + 1)"

definition format_2f :: "rat \<Rightarrow> rat" where
  "format_2f x = of_int (round_half_even (x * 100)) / 100"

definition PPMtoPercentage :: "int option \<Rightarrow> rat" where
  "PPMtoPercentage v =
     (case v of
        None \<Rightarrow> - 1
      | Some n \<Rightarrow> if n < 0 then - 1 else format_2f (of_int n / 10000))"

text \<open>\<^verbatim>\<open>math.pow\<close> at an integer exponent.\<close>

definition math_pow :: "rat \<Rightarrow> int \<Rightarrow> rat" where
  "math_pow b e = (if 0 \<le> e then b ^ nat e else 1 / b ^ nat (- e))"

definition correctMeasurement :: "session \<Rightarrow> int \<Rightarrow> error + int" where
  "correctMeasurement s v =
     (let x = of_int v;
          Y = (if v \<ge> 1500 then
                 2.6661 * math_pow 10 (- 16) * math_pow x 4
                 - 1.1146 * math_pow 10 (- 12) * math_pow x 3
                 + 1.7397 * math_pow 10 (- 9) * math_pow x 2
                 - 1.2556 * math_pow 10 (- 6) * x
                 - 9.8754 * math_pow 10 (- 4)
               else
                 2.881 * math_pow 10 (- 38) * math_pow x 6
                 - 9.817 * math_pow 10 (- 32) * math_pow x 5
                 + 1.304 * math_pow 10 (- 25) * math_pow x 4
                 - 8.126 * math_pow 10 (- 20) * math_pow x 3
                 + 2.311 * math_pow 10 (- 14) * math_pow x 2
                 - 2.195 * math_pow 10 (- 9) * x
                 - 1.471 * math_pow 10 (- 3));
          d = 1 + Y * (1013 - of_int (pressure s))
      in if d = 0 then Inl ZeroDivisionError else Inr (int_trunc (x / d)))"

text \<open>
  \<^verbatim>\<open>getCO2Measurement\<close>.  The raw reading is the result of \<^verbatim>\<open>int(...)\<close>, so the test
  \<^verbatim>\<open>type(value) != int\<close> is false and only \<^verbatim>\<open>value < 0\<close> decides the sentinel.
\<close>

definition getCO2Measurement :: "builtins \<Rightarrow> session \<Rightarrow> bool \<Rightarrow> bool \<Rightarrow> int outcome" where
  "getCO2Measurement py s filtered check_correction =
     and_then
       (if filtered then getMostRecentFilteredCO2Measurement py s
        else getMostRecentUnfilteredCO2Measurement py s)
       (\<lambda>raw s'.
          if raw < 0 then returns (- 1) s'
          else
            (let v = raw * scalingFactor s' in
             if check_correction \<and> PPMtoPercentage (Some v) > 1.0 then
               (case correctMeasurement s' v of
                  Inl e \<Rightarrow> raises e s'
                | Inr value_after \<Rightarrow> returns value_after s')
             else returns v s'))"

section \<open>Pressure and compensation\<close>

definition pressureToCompensation :: "int \<Rightarrow> int" where
  "pressureToCompensation p = int_trunc (8192 + ((1013 - of_int p) * 0.14 / 100) * 8192)"

definition compensationToPressure :: "int \<Rightarrow> int" where
  "compensationToPressure c =
     int_trunc ((((of_int c - 8192) * 100) / 8192 - (1013 * 0.14) / 0.14) * - 1)"


definition getPressureAndCompensationValue :: "builtins \<Rightarrow> session \<Rightarrow> int outcome" where
  "getPressureAndCompensationValue py s =
     and_then (recv (uart_write (''s'' @ CRLF) s)) (\<lambda>reply s'.
       (case int_of_text py (take 5 (drop 3 reply)) of
          Inl e \<Rightarrow> raises e s'
        | Inr v \<Rightarrow> if v < 0 then raises SprintIRR20_unexpected_reply s' else returns v s'))"

section \<open>Digital filter\<close>

definition setDigitalFilter :: "session \<Rightarrow> int option \<Rightarrow> int outcome" where
  "setDigitalFilter s v =
     (case v of
        None \<Rightarrow> returns (- 1) s
      | Some n \<Rightarrow>
          if n > 65635 \<or> \<not> positive n \<or> n = 0 then returns (- 1) s
          else
            (let value_str = formatArgument5digits n;
                 command = ''A '' @ value_str @ CRLF
             in and_then (recv (uart_write command s)) (\<lambda>reply s'.
                  if drop 1 reply \<noteq> command then raises SprintIRR20_unexpected_reply s'
                  else returns 0 s')))"


section \<open>Zero point, background concentration and auto-zeroing\<close>


definition setBackgroundPPMAutozeroing :: "session \<Rightarrow> int option \<Rightarrow> int outcome" where
  "setBackgroundPPMAutozeroing s v =
     (case v of
        None \<Rightarrow> returns (- 1) s
      | Some n \<Rightarrow>
          if \<not> positive n then returns (- 1) s
          else if scalingFactor s = 0 then raises ZeroDivisionError s
          else
            (let x = of_int n / of_int (scalingFactor s);
                 msb = int_trunc (x / 256);
                 lsb = int_trunc (x - of_int (256 * msb));
                 msb_str = formatArgument5digits msb;
                 lsb_str = formatArgument5digits lsb;
                 command_msb = ''P 00008 '' @ msb_str @ CRLF;
                 command_lsb = ''P 00009 '' @ lsb_str @ CRLF
             in and_then (recv (uart_write command_msb s)) (\<lambda>reply_msb s'.
                  if drop 1 reply_msb \<noteq> command_msb then raises SprintIRR20_unexpected_reply s'
                  else
                    and_then (recv (uart_write command_lsb s')) (\<lambda>reply_lsb s''.
                      if take 5 (drop 9 reply_lsb) \<noteq> command_lsb
                      then raises SprintIRR20_unexpected_reply s''
                      else returns 0 s''))))"

definition setBackgroundPPMFreshAir :: "session \<Rightarrow> int option \<Rightarrow> int outcome" where
  "setBackgroundPPMFreshAir s v =
     (case v of
        None \<Rightarrow> returns (- 1) s
      | Some n \<Rightarrow>
          if \<not> positive n then returns (- 1) s
          else if scalingFactor s = 0 then raises ZeroDivisionError s
          else
            (let x = of_int n / of_int (scalingFactor s);
                 msb = int_trunc (x / 256);
                 lsb = int_trunc (x - of_int (256 * msb));
                 msb_str = formatArgument5digits msb;
                 lsb_str = formatArgument5digits lsb;
                 command_msb = ''P 00010 '' @ msb_str @ CRLF;
                 command_lsb = ''P 00011 '' @ lsb_str @ CRLF
             in and_then (recv (uart_write command_msb s)) (\<lambda>reply_msb s'.
                  if drop 1 reply_msb \<noteq> command_msb then raises SprintIRR20_unexpected_reply s'
                  else
                    and_then (recv (uart_write command_lsb s')) (\<lambda>reply_lsb s''.
                      if drop 1 reply_lsb \<noteq> command_lsb
                      then raises SprintIRR20_unexpected_reply s''
                      else returns 0 s''))))"


section \<open>Session start\<close>




section \<open>The correction as the specification writes it\<close>





section \<open>Sample sessions\<close>

text \<open>
  A session at the calibration point (compensation 8192, 1013 mbar), scaling factor 1,
  one second of timeout, listening on a port that will deliver the given lines.
\<close>

definition sample :: "string list \<Rightarrow> session" where
  "sample ls =
     \<lparr>uart = port ls, verbose = False, verbose_measuring = False, timeout = PInt 1,
      scalingFactor = 1, compensationValue = 8192, pressure = 1013, digitalFilter = 16\<rparr>"

text \<open>The session a call leaves behind: \<open>k\<close> read attempts made, the given lines written.\<close>

definition after :: "session \<Rightarrow> nat \<Rightarrow> string list \<Rightarrow> session" where
  "after s k cmds = s\<lparr>uart := (uart s)\<lparr>reads := k, tx := cmds\<rparr>\<rparr>"

section \<open>Auxiliary facts\<close>

subsection \<open>Decimal text of an integer\<close>

declare str_nat.simps [simp del]

declare count_digits.simps [simp del]







lemma dec_acc_zero: "dec_acc 0 (CHR ''0'' # xs) = dec_acc 0 xs"
  by (simp add: digit_val_def)



subsection \<open>Rounding rational numerals\<close>

lemma floor_rat_numeral_div:
  "\<lfloor>numeral a / numeral b :: rat\<rfloor> = numeral a div numeral b"
  by (metis floor_divide_of_int_eq of_int_numeral)

lemma floor_rat_neg_numeral_div:
  "\<lfloor>- (numeral a / numeral b) :: rat\<rfloor> = - numeral a div numeral b"
  by (metis divide_minus_left floor_divide_of_int_eq of_int_neg_numeral of_int_numeral)

lemma ceiling_rat_numeral_div:
  "\<lceil>numeral a / numeral b :: rat\<rceil> = - (- numeral a div numeral b)"
  using ceiling_divide_eq_div[of "numeral a" "numeral b", where ?'a = rat] by simp

lemma ceiling_rat_neg_numeral_div:
  "\<lceil>- (numeral a / numeral b) :: rat\<rceil> = - (numeral a div numeral b)"
  using ceiling_divide_eq_div[of "- numeral a" "numeral b", where ?'a = rat] by simp

lemmas rat_rounding =
  floor_rat_numeral_div floor_rat_neg_numeral_div
  ceiling_rat_numeral_div ceiling_rat_neg_numeral_div

subsection \<open>The poll loop\<close>

lemma poll_silent:
  "(\<forall>k<n. rx u (reads u + k) = None) \<Longrightarrow> poll n u = (None, u\<lparr>reads := reads u + n\<rparr>)"
proof (induction n arbitrary: u)
  case 0
  then show ?case by simp
next
  case (Suc n)
  from Suc.prems[rule_format, of 0] have first: "rx u (reads u) = None"
    by simp
  let ?u = "u\<lparr>reads := Suc (reads u)\<rparr>"
  have "\<forall>k<n. rx ?u (reads ?u + k) = None"
  proof (intro allI impI)
    fix k assume "k < n"
    with Suc.prems[rule_format, of "Suc k"] show "rx ?u (reads ?u + k) = None" by simp
  qed
  from Suc.IH[OF this] first show ?case
    by (simp add: uart_readline_def)
qed

lemma poll_first:
  "j < n \<Longrightarrow> (\<forall>k<j. rx u (reads u + k) = None) \<Longrightarrow> rx u (reads u + j) = Some l \<Longrightarrow>
   poll n u = (Some l, u\<lparr>reads := reads u + j + 1\<rparr>)"
proof (induction n arbitrary: u j)
  case 0
  then show ?case by simp
next
  case (Suc n)
  show ?case
  proof (cases j)
    case 0
    with Suc.prems show ?thesis by (simp add: uart_readline_def)
  next
    case (Suc i)
    let ?u = "u\<lparr>reads := Suc (reads u)\<rparr>"
    from Suc Suc.prems(2)[rule_format, of 0] have first: "rx u (reads u) = None"
      by simp
    have a: "i < n" using Suc Suc.prems by simp
    have b: "\<forall>k<i. rx ?u (reads ?u + k) = None"
    proof (intro allI impI)
      fix k assume "k < i"
      then have "Suc k < j" using Suc by simp
      with Suc.prems(2) have "rx u (reads u + Suc k) = None" by blast
      then show "rx ?u (reads ?u + k) = None" by simp
    qed
    have c: "rx ?u (reads ?u + i) = Some l" using Suc.prems(3) Suc by simp
    from Suc.IH[OF a b c] first Suc show ?thesis
      by (simp add: uart_readline_def)
  qed
qed

lemma poll_hit:
  "rx u (reads u) = Some r \<Longrightarrow> 0 < n \<Longrightarrow> poll n u = (Some r, u\<lparr>reads := Suc (reads u)\<rparr>)"
  by (cases n) (simp_all add: uart_readline_def)

lemma UART_recv_hit:
  "0 < t \<Longrightarrow> rx u (reads u) = Some r \<Longrightarrow>
   UART_recv (PInt t) u = Some (Inr r, u\<lparr>reads := Suc (reads u)\<rparr>)"
  by (simp add: UART_recv_def poll_hit)

lemma recv_hit:
  "timeout s = PInt t \<Longrightarrow> 0 < t \<Longrightarrow> rx (uart s) (reads (uart s)) = Some r \<Longrightarrow>
   recv s = Some (Inr r, s\<lparr>uart := (uart s)\<lparr>reads := Suc (reads (uart s))\<rparr>\<rparr>)"
  by (simp add: recv_def UART_recv_hit)

subsection \<open>Evaluating calls on the sample sessions\<close>

lemmas fmt_eval =
  formatArgument5digits_def numberOfDigits_def str_def digit_of_def str_nat.simps
  count_digits.simps

lemma sample_fields:
  "uart (sample ls) = port ls" "timeout (sample ls) = PInt 1" "scalingFactor (sample ls) = 1"
  "compensationValue (sample ls) = 8192" "pressure (sample ls) = 1013"
  "rx (port ls) = replies ls" "reads (port ls) = 0" "tx (port ls) = []"
  by (simp_all add: sample_def port_def)

lemma after_fields:
  "timeout (after s k cs) = timeout s" "scalingFactor (after s k cs) = scalingFactor s"
  "compensationValue (after s k cs) = compensationValue s" "pressure (after s k cs) = pressure s"
  "rx (uart (after s k cs)) = rx (uart s)" "reads (uart (after s k cs)) = k"
  "tx (uart (after s k cs)) = cs" "after (after s k cs) k' cs' = after s k' cs'"
  by (simp_all add: after_def)

lemma recv_replies:
  assumes "timeout s = PInt t" "0 < t" "rx (uart s) = replies ls" "reads (uart s) < length ls"
  shows "recv (uart_write c s) =
           Some (Inr (ls ! reads (uart s)), after s (Suc (reads (uart s))) (tx (uart s) @ [c]))"
proof -
  have "rx (uart (uart_write c s)) (reads (uart (uart_write c s))) = Some (ls ! reads (uart s))"
    using assms by (simp add: uart_write_def replies_def)
  from recv_hit[OF _ assms(2) this] assms(1) show ?thesis
    by (simp add: uart_write_def after_def)
qed

subsection \<open>What receiving leaves untouched\<close>

lemma poll_frame: "poll n u = (r, u') \<Longrightarrow> rx u' = rx u \<and> tx u' = tx u"
proof (induction n arbitrary: u)
  case 0
  then show ?case by simp
next
  case (Suc n)
  show ?case
  proof (cases "rx u (reads u)")
    case None
    with Suc.prems have "poll n (u\<lparr>reads := Suc (reads u)\<rparr>) = (r, u')"
      by (simp add: uart_readline_def)
    from Suc.IH[OF this] show ?thesis by simp
  next
    case (Some l)
    with Suc.prems show ?thesis by (auto simp: uart_readline_def)
  qed
qed

lemma recv_forever_frame_snd:
  assumes "recv_forever u = Some y"
  shows "rx (snd y) = rx u \<and> tx (snd y) = tx u"
proof (rule recv_forever.raw_induct
    [where P = "\<lambda>u y. rx (snd y) = rx u \<and> tx (snd y) = tx u", OF _ assms])
  fix f :: "transport \<Rightarrow> (string \<times> transport) option" and u y
  assume IH: "\<And>x y. f x = Some y \<Longrightarrow> rx (snd y) = rx x \<and> tx (snd y) = tx x"
    and eq: "(case uart_readline u of
                (None, u') \<Rightarrow> f u'
              | (Some response, u') \<Rightarrow> Some (response, u')) = Some y"
  show "rx (snd y) = rx u \<and> tx (snd y) = tx u"
  proof (cases "rx u (reads u)")
    case None
    with eq have "f (u\<lparr>reads := Suc (reads u)\<rparr>) = Some y"
      by (simp add: uart_readline_def)
    from IH[OF this] show ?thesis by simp
  next
    case (Some l)
    with eq show ?thesis by (auto simp: uart_readline_def)
  qed
qed

lemma recv_forever_frame: "recv_forever u = Some (r, u') \<Longrightarrow> rx u' = rx u \<and> tx u' = tx u"
  using recv_forever_frame_snd[of u "(r, u')"] by simp

lemma UART_recv_frame: "UART_recv t u = Some (r, u') \<Longrightarrow> rx u' = rx u \<and> tx u' = tx u"
  by (auto simp: UART_recv_def Let_def split: if_splits pynum.splits prod.splits option.splits
           dest: poll_frame recv_forever_frame)

lemma recv_frame:
  assumes "recv s = Some (r, s')"
  shows "\<exists>u'. s' = s\<lparr>uart := u'\<rparr> \<and> rx u' = rx (uart s) \<and> tx u' = tx (uart s)"
proof -
  from assms obtain u' where u: "UART_recv (timeout s) (uart s) = Some (r, u')" "s' = s\<lparr>uart := u'\<rparr>"
    by (auto simp: recv_def split: option.splits)
  from UART_recv_frame[OF u(1)] u(2) show ?thesis by blast
qed


lemma recv_then_pure:
  assumes "and_then (recv (uart_write c s)) g = Some (r, s')"
    and "\<And>reply x. \<exists>res. g reply x = Some (res, x)"
  shows "\<exists>u'. s' = s\<lparr>uart := u'\<rparr> \<and> rx u' = rx (uart s) \<and> tx u' = tx (uart s) @ [c]"
proof (cases "recv (uart_write c s)")
  case None
  with assms(1) show ?thesis by (simp add: and_then_def)
next
  case (Some p)
  obtain q s1 where p: "p = (q, s1)" by (cases p)
  from recv_frame[OF Some[unfolded p]] obtain u' where
    u: "s1 = (uart_write c s)\<lparr>uart := u'\<rparr>" "rx u' = rx (uart (uart_write c s))"
       "tx u' = tx (uart (uart_write c s))"
    by blast
  then have s1: "s1 = s\<lparr>uart := u'\<rparr>" "rx u' = rx (uart s)" "tx u' = tx (uart s) @ [c]"
    by (simp_all add: uart_write_def)
  show ?thesis
  proof (cases q)
    case (Inl e)
    with assms(1) Some p s1 show ?thesis by (auto simp: and_then_def)
  next
    case (Inr reply)
    from assms(2)[of reply s1] obtain res where "g reply s1 = Some (res, s1)" by blast
    with assms(1) Some p Inr s1 show ?thesis by (auto simp: and_then_def)
  qed
qed

lemma getPressureAndCompensationValue_frame:
  "getPressureAndCompensationValue py s = Some (r, s') \<Longrightarrow> \<exists>u'. s' = s\<lparr>uart := u'\<rparr>"
  unfolding getPressureAndCompensationValue_def
  by (drule recv_then_pure) (auto simp: raises_def returns_def split: sum.splits)



lemma recv_write_eval:
  assumes "timeout s = PInt 1" "rx (uart s) (reads (uart s)) \<noteq> None"
  shows "recv (uart_write c s) =
           Some (Inr (the (rx (uart s) (reads (uart s)))),
                 s\<lparr>uart := (uart s)\<lparr>reads := Suc (reads (uart s)), tx := tx (uart s) @ [c]\<rparr>\<rparr>)"
proof -
  from assms(2) obtain l where l: "rx (uart s) (reads (uart s)) = Some l" by blast
  then have "rx (uart (uart_write c s)) (reads (uart (uart_write c s))) = Some l"
    by (simp add: uart_write_def)
  from recv_hit[OF _ _ this, of 1] assms(1) l show ?thesis
    by (simp add: uart_write_def)
qed

lemmas run_eval =
  recv_write_eval and_then_def returns_def raises_def Let_def positive_def
  sample_def port_def replies_def after_def CRLF_def
  dec_builtins_def dec_field_def dec_int_def digit_val_def

subsection \<open>The percentage test and the measurement readers\<close>

lemma round_half_even_gt_100: "100 < round_half_even x \<longleftrightarrow> 201 / 2 < x"
proof -
  define f where "f = \<lfloor>x\<rfloor>"
  have lo: "of_int f \<le> x" and hi: "x < of_int f + 1"
    unfolding f_def by linarith+
  have e: "even f \<Longrightarrow> f \<noteq> 101" "\<not> even f \<Longrightarrow> f \<noteq> 100" by auto
  consider "x - of_int f < 1 / 2" | "1 / 2 < x - of_int f" | "x - of_int f = 1 / 2"
    by linarith
  then show ?thesis
  proof cases
    case 1
    then have r: "round_half_even x = f" by (simp add: round_half_even_def Let_def f_def)
    show ?thesis
    proof
      assume "100 < round_half_even x"
      with r have "101 \<le> f" by simp
      then have "(101::rat) \<le> of_int f" by linarith
      with lo show "201 / 2 < x" by linarith
    next
      assume "201 / 2 < x"
      with 1 have "(100::rat) < of_int f" by linarith
      then have "100 < f" by linarith
      with r show "100 < round_half_even x" by simp
    qed
  next
    case 2
    then have r: "round_half_even x = f + 1" by (simp add: round_half_even_def Let_def f_def)
    show ?thesis
    proof
      assume "100 < round_half_even x"
      with r have "100 \<le> f" by simp
      then have "(100::rat) \<le> of_int f" by linarith
      with 2 show "201 / 2 < x" by linarith
    next
      assume "201 / 2 < x"
      with hi have "(99::rat) < of_int f" by linarith
      then have "99 < f" by linarith
      with r show "100 < round_half_even x" by simp
    qed
  next
    case 3
    then have r: "round_half_even x = (if even f then f else f + 1)"
      by (simp add: round_half_even_def Let_def f_def)
    from 3 have x: "x = of_int f + 1 / 2" by linarith
    show ?thesis
    proof
      assume a: "100 < round_half_even x"
      have "100 < f"
      proof (cases "even f")
        case True
        with a r show ?thesis by simp
      next
        case False
        with a r have "100 \<le> f" by simp
        moreover from False have "f \<noteq> 100" by auto
        ultimately show ?thesis by linarith
      qed
      then have "(100::rat) < of_int f" by linarith
      with x show "201 / 2 < x" by linarith
    next
      assume "201 / 2 < x"
      with x have "(100::rat) < of_int f" by linarith
      then have "100 < f" by linarith
      with r show "100 < round_half_even x" by simp
    qed
  qed
qed

lemma PPMtoPercentage_gt_1:
  assumes "0 \<le> n"
  shows "1 < PPMtoPercentage (Some n) \<longleftrightarrow> 10050 < n"
proof -
  have "1 < PPMtoPercentage (Some n) \<longleftrightarrow> 100 < round_half_even (of_int n / 10000 * 100)"
    using assms by (simp add: PPMtoPercentage_def format_2f_def)
  also have "\<dots> \<longleftrightarrow> 201 / 2 < (of_int n / 10000 * 100 :: rat)"
    by (rule round_half_even_gt_100)
  also have "\<dots> \<longleftrightarrow> (10050::rat) < of_int n" by (simp add: field_simps)
  also have "\<dots> \<longleftrightarrow> 10050 < n" by linarith
  finally show ?thesis .
qed

lemma reading_frame:
  assumes "(if filtered then getMostRecentFilteredCO2Measurement py s
            else getMostRecentUnfilteredCO2Measurement py s) = Some (r, s')"
  shows "\<exists>u'. s' = s\<lparr>uart := u'\<rparr>"
proof (cases filtered)
  case True
  with assms have "getMostRecentFilteredCO2Measurement py s = Some (r, s')" by simp
  then show ?thesis
    unfolding getMostRecentFilteredCO2Measurement_def
    by (drule_tac recv_then_pure) (auto simp: raises_def returns_def split: sum.splits)
next
  case False
  with assms have "getMostRecentUnfilteredCO2Measurement py s = Some (r, s')" by simp
  then show ?thesis
    unfolding getMostRecentUnfilteredCO2Measurement_def
    by (drule_tac recv_then_pure) (auto simp: raises_def returns_def split: sum.splits)
qed

lemma reading_minus_5:
  "getMostRecentUnfilteredCO2Measurement dec_builtins (sample [CHR '' '' # ''z -0005'' @ CRLF])
   = Some (Inr (- 5), after (sample [CHR '' '' # ''z -0005'' @ CRLF]) 1 [''z'' @ CRLF])"
  by (simp add: getMostRecentUnfilteredCO2Measurement_def run_eval)

lemma reading_450:
  "getMostRecentUnfilteredCO2Measurement dec_builtins (sample [CHR '' '' # ''z 00450'' @ CRLF])
   = Some (Inr 450, after (sample [CHR '' '' # ''z 00450'' @ CRLF]) 1 [''z'' @ CRLF])"
  by (simp add: getMostRecentUnfilteredCO2Measurement_def run_eval)

lemma reading_10051:
  "getMostRecentFilteredCO2Measurement dec_builtins
     ((sample [CHR '' '' # ''Z 10051'' @ CRLF])\<lparr>compensationValue := 9200, pressure := 1000\<rparr>)
   = Some (Inr 10051,
       after ((sample [CHR '' '' # ''Z 10051'' @ CRLF])\<lparr>compensationValue := 9200, pressure := 1000\<rparr>)
         1 [''Z'' @ CRLF])"
  by (simp add: getMostRecentFilteredCO2Measurement_def run_eval)

lemma correct_10051:
  "correctMeasurement
     (after ((sample ls)\<lparr>compensationValue := 9200, pressure := 1000\<rparr>) k cs) 10051 = Inr 422"
  by (simp add: correctMeasurement_def math_pow_def int_trunc_def rat_rounding after_def sample_def
        Let_def)

lemma correct_10001:
  "correctMeasurement
     (after ((sample ls)\<lparr>compensationValue := 9200, pressure := 1000\<rparr>) k cs) 10001 = Inr 429"
  by (simp add: correctMeasurement_def math_pow_def int_trunc_def rat_rounding after_def sample_def
        Let_def)


section \<open>The receive loop and its timeout\<close>

text \<open>
  Claim C4, as the code has it.  With a positive integer number of seconds \<open>t\<close>, a port that
  stays silent is polled exactly \<open>\<lceil>16 \<times> t\<rceil> = 16 \<times> t\<close> times and then \<^verbatim>\<open>UART_recv\<close> raises the
  timeout exception; a line arriving at attempt \<open>j\<close> (counted from 0) inside that budget,
  after \<open>j\<close> silent attempts, is returned after exactly \<open>j + 1\<close> polls.  A float number of
  seconds other than zero raises \<^verbatim>\<open>TypeError\<close> before any poll.
\<close>

theorem UART_recv_int_timeout:
  assumes "0 < t"
  shows "((\<forall>k. rx u (reads u + k) = None) \<longrightarrow>
            UART_recv (PInt t) u =
              Some (Inl SprintIRR20_timeout, u\<lparr>reads := reads u + nat \<lceil>16 * rat_of_int t\<rceil>\<rparr>))
       \<and> (\<forall>j l. j < nat \<lceil>16 * rat_of_int t\<rceil> \<and> (\<forall>k<j. rx u (reads u + k) = None)
                 \<and> rx u (reads u + j) = Some l \<longrightarrow>
            UART_recv (PInt t) u = Some (Inr l, u\<lparr>reads := reads u + j + 1\<rparr>))
       \<and> (\<forall>f. f \<noteq> 0 \<longrightarrow> UART_recv (PFloat f) u = Some (Inl TypeError, u))"
proof -
  have c: "\<lceil>16 * rat_of_int t\<rceil> = 16 * t"
    by (metis ceiling_of_int of_int_mult of_int_numeral)
  have pos: "\<not> 16 * t \<le> 0" using assms by simp
  have silent: "UART_recv (PInt t) u =
      Some (Inl SprintIRR20_timeout, u\<lparr>reads := reads u + nat (16 * t)\<rparr>)"
    if "\<forall>k. rx u (reads u + k) = None"
  proof -
    from that have "\<forall>k<nat (16 * t). rx u (reads u + k) = None" by simp
    from poll_silent[OF this] pos assms show ?thesis
      by (simp add: UART_recv_def Let_def)
  qed
  have hit: "UART_recv (PInt t) u = Some (Inr l, u\<lparr>reads := reads u + j + 1\<rparr>)"
    if "j < nat (16 * t)" "\<forall>k<j. rx u (reads u + k) = None" "rx u (reads u + j) = Some l"
    for j l
    using poll_first[OF that] pos assms by (simp add: UART_recv_def Let_def)
  have float: "UART_recv (PFloat f) u = Some (Inl TypeError, u)" if "f \<noteq> 0" for f
    using that by (simp add: UART_recv_def)
  show ?thesis
    unfolding c using silent hit float by blast
qed

text \<open>
  One second on a silent port: 16 polls, then the timeout.  One second on a port whose
  first line is there at once: one poll.  Half a second: \<^verbatim>\<open>TypeError\<close>.
\<close>

theorem UART_recv_int_timeout_witness:
  "UART_recv (PInt 1) (port []) = Some (Inl SprintIRR20_timeout, (port [])\<lparr>reads := 16\<rparr>)
   \<and> UART_recv (PInt 1) (port [''z 00450'']) =
       Some (Inr ''z 00450'', (port [''z 00450''])\<lparr>reads := 1\<rparr>)
   \<and> UART_recv (PFloat (1 / 2)) (port []) = Some (Inl TypeError, port [])"
proof -
  have pos: "(0::int) < 1" by simp
  note T = UART_recv_int_timeout[OF pos]
  have c: "nat \<lceil>16 * rat_of_int 1\<rceil> = 16" by simp
  have a: "UART_recv (PInt 1) (port []) = Some (Inl SprintIRR20_timeout, (port [])\<lparr>reads := 16\<rparr>)"
    using T[of "port []", THEN conjunct1] unfolding c by (simp add: port_def replies_def)
  have b: "UART_recv (PInt 1) (port [''z 00450'']) =
           Some (Inr ''z 00450'', (port [''z 00450''])\<lparr>reads := 1\<rparr>)"
    using T[of "port [''z 00450'']", THEN conjunct2, THEN conjunct1, rule_format, of 0 "''z 00450''"]
    unfolding c by (simp add: port_def replies_def)
  have d: "UART_recv (PFloat (1 / 2)) (port []) = Some (Inl TypeError, port [])"
    using T[of "port []", THEN conjunct2, THEN conjunct2, rule_format, of "1 / 2"] by simp
  from a b d show ?thesis by blast
qed

text \<open>
  Claim C4 as stated, for every positive number of seconds, fails at half a second: on a
  silent port the claim asks for \<open>\<lceil>16 \<times> 0.5\<rceil> = 8\<close> polls and then the timeout exception,
  while \<^verbatim>\<open>range(8.0)\<close> raises \<^verbatim>\<open>TypeError\<close> with no poll made.
\<close>

theorem UART_recv_float_timeout_counterexample:
  "UART_recv (PFloat (1 / 2)) (port []) = Some (Inl TypeError, port [])
   \<and> UART_recv (PFloat (1 / 2)) (port []) \<noteq>
       Some (Inl SprintIRR20_timeout, (port [])\<lparr>reads := nat \<lceil>16 * (1 / 2 :: rat)\<rceil>\<rparr>)"
  by (simp add: UART_recv_def)

section \<open>Pressure and compensation conversions\<close>

text \<open>
  Claim C6 at 800 mbar: the compensation value is 10634, and converting it back gives
  983 mbar, which is 183 mbar away from 800 and not within 1 mbar.
\<close>

theorem pressure_round_trip_at_800:
  "pressureToCompensation 800 = 10634
   \<and> compensationToPressure (pressureToCompensation 800) = 983
   \<and> \<not> \<bar>compensationToPressure (pressureToCompensation 800) - 800\<bar> \<le> 1"
  by (simp add: compensationToPressure_def pressureToCompensation_def int_trunc_def rat_rounding)

section \<open>Digital filter range\<close>

text \<open>
  Claim C9 at 65600, a value above 65535: the guard of \<^verbatim>\<open>setDigitalFilter\<close> compares with
  65635, so the call is not rejected; it writes \<^verbatim>\<open>A 65600\<close> to the port and, the sensor
  echoing the line, returns 0.
\<close>

theorem setDigitalFilter_accepts_65600:
  "setDigitalFilter (sample [CHR '' '' # ''A 65600'' @ CRLF]) (Some 65600)
     = Some (Inr 0, after (sample [CHR '' '' # ''A 65600'' @ CRLF]) 1 [''A 65600'' @ CRLF])"
proof -
  let ?c = "''A 65600'' @ CRLF"
  let ?s = "sample [CHR '' '' # ?c]"
  have r: "recv (uart_write ?c ?s) = Some (Inr (CHR '' '' # ?c), after ?s 1 [?c])"
    by (subst recv_replies[where t = 1 and ls = "[CHR '' '' # ?c]"])
       (simp_all add: sample_fields)
  show ?thesis
    using r by (simp add: setDigitalFilter_def fmt_eval positive_def and_then_def returns_def Let_def)
qed

text \<open>So the call at 65600 is not answered with the sentinel and the port is not left alone.\<close>

theorem setDigitalFilter_accepts_65600_witness:
  "setDigitalFilter (sample [CHR '' '' # ''A 65600'' @ CRLF]) (Some 65600)
     \<noteq> Some (Inr (- 1), sample [CHR '' '' # ''A 65600'' @ CRLF])"
  using setDigitalFilter_accepts_65600 by simp

text \<open>What the guard does reject: \<^verbatim>\<open>None\<close>, zero, negatives and everything above 65635.\<close>

lemma setDigitalFilter_rejects:
  "setDigitalFilter s None = Some (Inr (- 1), s)"
  "n \<le> 0 \<or> 65635 < n \<Longrightarrow> setDigitalFilter s (Some n) = Some (Inr (- 1), s)"
  by (auto simp: setDigitalFilter_def positive_def returns_def)

section \<open>Background concentration for auto-zeroing\<close>

text \<open>
  Claim C5 at value 400 with scaling factor 1.  The two commands are \<^verbatim>\<open>P 00008 00001\<close> and
  \<^verbatim>\<open>P 00009 00144\<close>, and the sensor echoes both.  \<^verbatim>\<open>setBackgroundPPMAutozeroing\<close> compares
  the slice \<^verbatim>\<open>[9:14]\<close> of the second reply with the whole second command, finds them
  different and raises the unexpected-reply exception instead of returning 0.
\<close>

theorem setBackgroundPPMAutozeroing_400_echoed:
  "setBackgroundPPMAutozeroing
     (sample [CHR '' '' # ''P 00008 00001'' @ CRLF, CHR '' '' # ''P 00009 00144'' @ CRLF]) (Some 400)
   = Some (Inl SprintIRR20_unexpected_reply,
       after (sample [CHR '' '' # ''P 00008 00001'' @ CRLF, CHR '' '' # ''P 00009 00144'' @ CRLF]) 2
         [''P 00008 00001'' @ CRLF, ''P 00009 00144'' @ CRLF])"
proof -
  let ?c1 = "''P 00008 00001'' @ CRLF"
  let ?c2 = "''P 00009 00144'' @ CRLF"
  let ?s = "sample [CHR '' '' # ?c1, CHR '' '' # ?c2]"
  have r1: "recv (uart_write ?c1 ?s) = Some (Inr (CHR '' '' # ?c1), after ?s 1 [?c1])"
    by (subst recv_replies[where t = 1 and ls = "[CHR '' '' # ?c1, CHR '' '' # ?c2]"])
       (simp_all add: sample_fields)
  have r2: "recv (uart_write ?c2 (after ?s 1 [?c1])) =
            Some (Inr (CHR '' '' # ?c2), after ?s 2 [?c1, ?c2])"
    by (subst recv_replies[where t = 1 and ls = "[CHR '' '' # ?c1, CHR '' '' # ?c2]"])
       (simp_all add: sample_fields after_fields numeral_2_eq_2)
  show ?thesis
    using r1 r2
    by (simp add: setBackgroundPPMAutozeroing_def fmt_eval int_trunc_def rat_rounding positive_def
          and_then_def returns_def raises_def Let_def sample_fields CRLF_def)
qed

text \<open>
  The sibling \<^verbatim>\<open>setBackgroundPPMFreshAir\<close> strips the marker of both replies with
  \<^verbatim>\<open>[1:]\<close> and returns 0 in the same situation.
\<close>

lemma setBackgroundPPMFreshAir_400_echoed:
  "setBackgroundPPMFreshAir
     (sample [CHR '' '' # ''P 00010 00001'' @ CRLF, CHR '' '' # ''P 00011 00144'' @ CRLF]) (Some 400)
   = Some (Inr 0,
       after (sample [CHR '' '' # ''P 00010 00001'' @ CRLF, CHR '' '' # ''P 00011 00144'' @ CRLF]) 2
         [''P 00010 00001'' @ CRLF, ''P 00011 00144'' @ CRLF])"
proof -
  let ?c1 = "''P 00010 00001'' @ CRLF"
  let ?c2 = "''P 00011 00144'' @ CRLF"
  let ?s = "sample [CHR '' '' # ?c1, CHR '' '' # ?c2]"
  have r1: "recv (uart_write ?c1 ?s) = Some (Inr (CHR '' '' # ?c1), after ?s 1 [?c1])"
    by (subst recv_replies[where t = 1 and ls = "[CHR '' '' # ?c1, CHR '' '' # ?c2]"])
       (simp_all add: sample_fields)
  have r2: "recv (uart_write ?c2 (after ?s 1 [?c1])) =
            Some (Inr (CHR '' '' # ?c2), after ?s 2 [?c1, ?c2])"
    by (subst recv_replies[where t = 1 and ls = "[CHR '' '' # ?c1, CHR '' '' # ?c2]"])
       (simp_all add: sample_fields after_fields numeral_2_eq_2)
  show ?thesis
    using r1 r2
    by (simp add: setBackgroundPPMFreshAir_def fmt_eval int_trunc_def rat_rounding positive_def
          and_then_def returns_def raises_def Let_def sample_fields CRLF_def)
qed

text \<open>
  A slice of at most five characters never equals a command of eleven or more, so no
  call of \<^verbatim>\<open>setBackgroundPPMAutozeroing\<close> returns 0, whatever the sensor answers.
\<close>

lemma take5_short: "take 5 xs = a # b # c # d # e # f # ys \<Longrightarrow> False"
proof -
  assume "take 5 xs = a # b # c # d # e # f # ys"
  then have "length (take 5 xs) = length (a # b # c # d # e # f # ys)" by simp
  then show False by simp
qed

lemma setBackgroundPPMAutozeroing_never_succeeds:
  "setBackgroundPPMAutozeroing s v \<noteq> Some (Inr 0, s')"
  by (auto simp: setBackgroundPPMAutozeroing_def returns_def raises_def and_then_def Let_def
           split: option.splits sum.splits prod.splits if_splits dest: take5_short)

section \<open>Five-digit arguments\<close>




section \<open>The cached compensation value and the pressure field\<close>







section \<open>Fine tuning of the zero point\<close>





section \<open>The CO2 measurement\<close>

text \<open>
  Claim C1, as the code has it.  Let the reader chosen by \<open>filtered\<close> return the raw value
  \<open>raw\<close>, and let the scaling factor be positive.  A negative \<open>raw\<close> makes
  \<^verbatim>\<open>getCO2Measurement\<close> return the sentinel \<open>- 1\<close>.  A non-negative \<open>raw\<close>, when no
  correction applies (it is switched off, or the scaled value is at most 10050 ppm), makes
  it return \<open>raw \<times> scalingFactor\<close>; this is never negative, and it is positive exactly
  when \<open>raw\<close> is.
\<close>

theorem getCO2Measurement_sentinel_and_scaling:
  assumes "(if filtered then getMostRecentFilteredCO2Measurement py s
            else getMostRecentUnfilteredCO2Measurement py s) = Some (Inr raw, s')"
    and "0 < scalingFactor s"
  shows "(raw < 0 \<longrightarrow> getCO2Measurement py s filtered check_correction = Some (Inr (- 1), s'))
       \<and> (0 \<le> raw \<and> (\<not> check_correction \<or> raw * scalingFactor s \<le> 10050) \<longrightarrow>
            getCO2Measurement py s filtered check_correction = Some (Inr (raw * scalingFactor s), s')
            \<and> 0 \<le> raw * scalingFactor s
            \<and> (0 < raw * scalingFactor s \<longleftrightarrow> 0 < raw))"
proof -
  from reading_frame[OF assms(1)] have sf: "scalingFactor s' = scalingFactor s" by auto
  have neg: "getCO2Measurement py s filtered check_correction = Some (Inr (- 1), s')" if "raw < 0"
    using assms(1) that by (simp add: getCO2Measurement_def and_then_def returns_def)
  have nonneg: "getCO2Measurement py s filtered check_correction
                  = Some (Inr (raw * scalingFactor s), s')
            \<and> 0 \<le> raw * scalingFactor s
            \<and> (0 < raw * scalingFactor s \<longleftrightarrow> 0 < raw)"
    if raw: "0 \<le> raw" and nc: "\<not> check_correction \<or> raw * scalingFactor s \<le> 10050"
  proof -
    from raw assms(2) have v: "0 \<le> raw * scalingFactor s" by simp
    from nc PPMtoPercentage_gt_1[OF v]
    have "\<not> (check_correction \<and> 1 < PPMtoPercentage (Some (raw * scalingFactor s)))"
      by auto
    with assms(1) raw sf have "getCO2Measurement py s filtered check_correction
                  = Some (Inr (raw * scalingFactor s), s')"
      by (auto simp: getCO2Measurement_def and_then_def returns_def Let_def)
    moreover from assms(2) have "0 < raw * scalingFactor s \<longleftrightarrow> 0 < raw"
      by (simp add: zero_less_mult_iff)
    ultimately show ?thesis using v by blast
  qed
  from neg nonneg show ?thesis by blast
qed

text \<open>The readings \<open>- 5\<close> and 450 at scaling factor 1: the sentinel, and 450.\<close>

theorem getCO2Measurement_sentinel_and_scaling_witness:
  "getCO2Measurement dec_builtins (sample [CHR '' '' # ''z -0005'' @ CRLF]) False True
     = Some (Inr (- 1), after (sample [CHR '' '' # ''z -0005'' @ CRLF]) 1 [''z'' @ CRLF])
   \<and> getCO2Measurement dec_builtins (sample [CHR '' '' # ''z 00450'' @ CRLF]) False True
     = Some (Inr 450, after (sample [CHR '' '' # ''z 00450'' @ CRLF]) 1 [''z'' @ CRLF])"
proof -
  have sf: "0 < scalingFactor (sample ls)" for ls by (simp add: sample_fields)
  have a: "(if False then getMostRecentFilteredCO2Measurement dec_builtins
                 (sample [CHR '' '' # ''z -0005'' @ CRLF])
            else getMostRecentUnfilteredCO2Measurement dec_builtins
                 (sample [CHR '' '' # ''z -0005'' @ CRLF]))
           = Some (Inr (- 5), after (sample [CHR '' '' # ''z -0005'' @ CRLF]) 1 [''z'' @ CRLF])"
    using reading_minus_5 by simp
  have b: "(if False then getMostRecentFilteredCO2Measurement dec_builtins
                 (sample [CHR '' '' # ''z 00450'' @ CRLF])
            else getMostRecentUnfilteredCO2Measurement dec_builtins
                 (sample [CHR '' '' # ''z 00450'' @ CRLF]))
           = Some (Inr 450, after (sample [CHR '' '' # ''z 00450'' @ CRLF]) 1 [''z'' @ CRLF])"
    using reading_450 by simp
  from getCO2Measurement_sentinel_and_scaling[OF a sf, of True]
       getCO2Measurement_sentinel_and_scaling[OF b sf, of True]
  show ?thesis by (simp add: sample_fields)
qed

text \<open>
  Claim C1 as stated promises a positive value for every non-negative raw reading.  The
  raw reading 0 at scaling factor 1 gives 0.
\<close>

theorem getCO2Measurement_zero_reading_counterexample:
  "getCO2Measurement dec_builtins (sample [CHR '' '' # ''z 00000'' @ CRLF]) False True
     = Some (Inr 0, after (sample [CHR '' '' # ''z 00000'' @ CRLF]) 1 [''z'' @ CRLF])
   \<and> scalingFactor (sample [CHR '' '' # ''z 00000'' @ CRLF]) = 1"
  by (simp add: getCO2Measurement_def getMostRecentUnfilteredCO2Measurement_def
        PPMtoPercentage_def format_2f_def round_half_even_def run_eval)

text \<open>
  Claim C2, as the code has it.  With \<^verbatim>\<open>check_correction\<close> true, a non-negative raw reading
  and a positive scaling factor, the correction is applied exactly when
  \<^verbatim>\<open>PPMtoPercentage\<close> of the scaled value exceeds 1; as the percentage is rounded to two
  decimals, that is exactly when the scaled value exceeds 10050 ppm.  Otherwise the
  scaled value is returned as it is.
\<close>

theorem getCO2Measurement_correction_threshold:
  assumes "(if filtered then getMostRecentFilteredCO2Measurement py s
            else getMostRecentUnfilteredCO2Measurement py s) = Some (Inr raw, s')"
    and "0 \<le> raw" and "0 < scalingFactor s"
  shows "(1 < PPMtoPercentage (Some (raw * scalingFactor s)) \<longleftrightarrow> 10050 < raw * scalingFactor s)
       \<and> getCO2Measurement py s filtered True =
           (if 1 < PPMtoPercentage (Some (raw * scalingFactor s)) then
              (case correctMeasurement s' (raw * scalingFactor s) of
                 Inl e \<Rightarrow> Some (Inl e, s')
               | Inr value_after \<Rightarrow> Some (Inr value_after, s'))
            else Some (Inr (raw * scalingFactor s), s'))"
proof -
  from reading_frame[OF assms(1)] have sf: "scalingFactor s' = scalingFactor s" by auto
  from assms(2,3) have v: "0 \<le> raw * scalingFactor s" by simp
  have "getCO2Measurement py s filtered True =
           (if 1 < PPMtoPercentage (Some (raw * scalingFactor s)) then
              (case correctMeasurement s' (raw * scalingFactor s) of
                 Inl e \<Rightarrow> Some (Inl e, s')
               | Inr value_after \<Rightarrow> Some (Inr value_after, s'))
            else Some (Inr (raw * scalingFactor s), s'))"
    using assms(1,2) sf
    by (auto simp: getCO2Measurement_def and_then_def returns_def raises_def Let_def
             split: sum.splits)
  with PPMtoPercentage_gt_1[OF v] show ?thesis by blast
qed

text \<open>
  The scenario of the specification: scaling factor 1 and the raw unfiltered reading 450
  give 450.  At 1000 mbar the filtered reading 10051 is corrected to 422.
\<close>

theorem getCO2Measurement_correction_threshold_witness:
  "getCO2Measurement dec_builtins (sample [CHR '' '' # ''z 00450'' @ CRLF]) False True
     = Some (Inr 450, after (sample [CHR '' '' # ''z 00450'' @ CRLF]) 1 [''z'' @ CRLF])
   \<and> getCO2Measurement dec_builtins
       ((sample [CHR '' '' # ''Z 10051'' @ CRLF])\<lparr>compensationValue := 9200, pressure := 1000\<rparr>)
       True True
     = Some (Inr 422,
         after ((sample [CHR '' '' # ''Z 10051'' @ CRLF])\<lparr>compensationValue := 9200, pressure := 1000\<rparr>)
           1 [''Z'' @ CRLF])"
proof -
  let ?s = "(sample [CHR '' '' # ''Z 10051'' @ CRLF])\<lparr>compensationValue := 9200, pressure := 1000\<rparr>"
  have sf: "0 < scalingFactor (sample ls)" for ls by (simp add: sample_fields)
  have sf': "0 < scalingFactor ?s" by (simp add: sample_fields)
  have b: "(if False then getMostRecentFilteredCO2Measurement dec_builtins
                 (sample [CHR '' '' # ''z 00450'' @ CRLF])
            else getMostRecentUnfilteredCO2Measurement dec_builtins
                 (sample [CHR '' '' # ''z 00450'' @ CRLF]))
           = Some (Inr 450, after (sample [CHR '' '' # ''z 00450'' @ CRLF]) 1 [''z'' @ CRLF])"
    using reading_450 by simp
  have c: "(if True then getMostRecentFilteredCO2Measurement dec_builtins ?s
            else getMostRecentUnfilteredCO2Measurement dec_builtins ?s)
           = Some (Inr 10051, after ?s 1 [''Z'' @ CRLF])"
    using reading_10051 by simp
  have p: "(0::int) \<le> 450" "(0::int) \<le> 10051" by simp_all
  from getCO2Measurement_correction_threshold[OF b p(1) sf]
  have one: "getCO2Measurement dec_builtins (sample [CHR '' '' # ''z 00450'' @ CRLF]) False True
     = Some (Inr 450, after (sample [CHR '' '' # ''z 00450'' @ CRLF]) 1 [''z'' @ CRLF])"
    by (simp add: sample_fields)
  from getCO2Measurement_correction_threshold[OF c p(2) sf']
  have two: "getCO2Measurement dec_builtins ?s True True = Some (Inr 422, after ?s 1 [''Z'' @ CRLF])"
    by (simp add: sample_fields correct_10051)
  from one two show ?thesis by blast
qed

text \<open>
  Claim C2 as stated puts the threshold at 10000 ppm.  At 1000 mbar the scaled reading
  10001 is above it, yet the call returns 10001 and not the corrected value 429: the
  percentage 1.0001 is rounded to 1.00, which does not exceed 1.0.
\<close>

theorem getCO2Measurement_10001_uncorrected_counterexample:
  "getCO2Measurement dec_builtins
       ((sample [CHR '' '' # ''z 10001'' @ CRLF])\<lparr>compensationValue := 9200, pressure := 1000\<rparr>)
       False True
     = Some (Inr 10001,
         after ((sample [CHR '' '' # ''z 10001'' @ CRLF])\<lparr>compensationValue := 9200, pressure := 1000\<rparr>)
           1 [''z'' @ CRLF])
   \<and> correctMeasurement
         (after ((sample [CHR '' '' # ''z 10001'' @ CRLF])\<lparr>compensationValue := 9200, pressure := 1000\<rparr>)
           1 [''z'' @ CRLF]) 10001 = Inr 429"
proof -
  have "getCO2Measurement dec_builtins
       ((sample [CHR '' '' # ''z 10001'' @ CRLF])\<lparr>compensationValue := 9200, pressure := 1000\<rparr>)
       False True
     = Some (Inr 10001,
         after ((sample [CHR '' '' # ''z 10001'' @ CRLF])\<lparr>compensationValue := 9200, pressure := 1000\<rparr>)
           1 [''z'' @ CRLF])"
    by (simp add: getCO2Measurement_def getMostRecentUnfilteredCO2Measurement_def
        PPMtoPercentage_def format_2f_def round_half_even_def rat_rounding run_eval)
  with correct_10001 show ?thesis by blast
qed

section \<open>The nonlinear correction\<close>






end
